theory Spec2Isabelle
  imports Complex_Main "HOL-Library.Sublist"
begin

section \<open>JavaScript values used by the restaurant search library\<close>

text \<open>
  The TypeScript sources work on strings and numbers.  A string is modelled as the list
  of its characters, over the characters U+0000 .. U+00FF (Isabelle's \<open>char\<close>); the
  operations below (\<open>toLowerCase\<close>, \<open>includes\<close>, \<open>join\<close>, \<open>trim\<close>) are the
  JavaScript ones restricted to such strings, which they map to such strings again.
  A finite \<open>number\<close> is a \<open>real\<close>; table scores, which the source writes as integer
  literals, and HTTP status codes are \<open>int\<close> and \<open>nat\<close>.  NaN and the infinities are not
  modelled.
\<close>

definition toLowerCase_char :: "char \<Rightarrow> char" where
  "toLowerCase_char c =
     (let n = (of_char c :: nat)
      in if (65 \<le> n \<and> n \<le> 90) \<or> (192 \<le> n \<and> n \<le> 222 \<and> n \<noteq> 215)
         then char_of (n + 32) else c)"

definition toLowerCase :: "string \<Rightarrow> string" where
  "toLowerCase s = map toLowerCase_char s"

fun startsWith :: "string \<Rightarrow> string \<Rightarrow> bool" where
  "startsWith s [] = True"
| "startsWith [] (k # ks) = False"
| "startsWith (c # cs) (k # ks) = (c = k \<and> startsWith cs ks)"

text \<open>\<open>str_includes s keyword\<close> is \<open>s.includes(keyword)\<close>: the keyword occurs in \<open>s\<close>.\<close>

fun str_includes :: "string \<Rightarrow> string \<Rightarrow> bool" where
  "str_includes [] keyword = (keyword = [])"
| "str_includes (c # cs) keyword = (startsWith (c # cs) keyword \<or> str_includes cs keyword)"

text \<open>\<open>join sep xs\<close> is \<open>xs.join(sep)\<close>.\<close>

fun join :: "string \<Rightarrow> string list \<Rightarrow> string" where
  "join sep [] = []"
| "join sep [x] = x"
| "join sep (x # y # ys) = x @ sep @ join sep (y # ys)"

text \<open>\<open>some p xs\<close> is \<open>xs.some(p)\<close>.\<close>

fun some :: "('a \<Rightarrow> bool) \<Rightarrow> 'a list \<Rightarrow> bool" where
  "some p [] = False"
| "some p (x # xs) = (p x \<or> some p xs)"

text \<open>Truthiness, and \<open>a || b\<close> at the types where the source uses it.\<close>

definition truthy_str :: "string \<Rightarrow> bool" where
  "truthy_str s = (s \<noteq> [])"

definition truthy_int :: "int \<Rightarrow> bool" where
  "truthy_int n = (n \<noteq> 0)"

definition truthy_num :: "real \<Rightarrow> bool" where
  "truthy_num x = (x \<noteq> 0)"

text \<open>
  \<open>None\<close> stands for a property that is missing (\<open>undefined\<close>) or \<open>null\<close>; both are
  falsy, as are the empty string and the number 0.
\<close>

definition or_str :: "string option \<Rightarrow> string \<Rightarrow> string" where
  "or_str a b = (case a of None \<Rightarrow> b | Some s \<Rightarrow> if truthy_str s then s else b)"

definition or_num :: "real option \<Rightarrow> real \<Rightarrow> real" where
  "or_num a b = (case a of None \<Rightarrow> b | Some x \<Rightarrow> if truthy_num x then x else b)"

definition or_list :: "'a list option \<Rightarrow> 'a list \<Rightarrow> 'a list" where
  "or_list a b = (case a of None \<Rightarrow> b | Some xs \<Rightarrow> xs)"

section \<open>The fixed tables\<close>

text \<open>
  The three tables are object literals; \<open>Object.entries\<close> lists their keys in the order
  written, so each is an association list in source order, and \<open>map_of T key\<close> is the
  lookup among the table's own properties.

  A table is a plain object, so \<open>T[key]\<close> also finds the members that every object
  inherits from \<open>Object.prototype\<close>; they are functions, and \<open>__proto__\<close> is the
  prototype object, all of them truthy.  \<open>get_property\<close> is \<open>T[key]\<close> for any string:
  the table's own entry, else the inherited member of that name, else \<open>undefined\<close>
  (\<open>None\<close>).  The cuisine filter of a search is such a string.  The score table is only
  read at the labels that \<open>detectCuisines\<close> returns, which are own keys of it
  (\<open>detected_labels_are_score_keys\<close>), so there the lookup is \<open>map_of\<close>.
\<close>

definition Object_prototype_members :: "string list" where
  "Object_prototype_members =
    [''constructor'', ''__defineGetter__'', ''__defineSetter__'', ''hasOwnProperty'',
     ''__lookupGetter__'', ''__lookupSetter__'', ''isPrototypeOf'', ''propertyIsEnumerable'',
     ''toString'', ''valueOf'', ''__proto__'', ''toLocaleString'']"

datatype js_property = Own string | Inherited string

definition get_property :: "(string \<times> string) list \<Rightarrow> string \<Rightarrow> js_property option" where
  "get_property T key =
     (case map_of T key of
        Some v \<Rightarrow> Some (Own v)
      | None \<Rightarrow> if key \<in> set Object_prototype_members then Some (Inherited key) else None)"

fun truthy_property :: "js_property \<Rightarrow> bool" where
  "truthy_property (Own v) = truthy_str v"
| "truthy_property (Inherited key) = True"

definition or_property :: "js_property option \<Rightarrow> js_property \<Rightarrow> js_property" where
  "or_property a b = (case a of None \<Rightarrow> b | Some v \<Rightarrow> if truthy_property v then v else b)"

definition CUISINE_CATEGORIES :: "(string \<times> string) list" where
  "CUISINE_CATEGORIES =
    [(''all'', ''catering.restaurant''),
     (''chinese'', ''catering.restaurant.chinese''),
     (''japanese'', ''catering.restaurant.japanese''),
     (''korean'', ''catering.restaurant.korean''),
     (''thai'', ''catering.restaurant.thai''),
     (''indian'', ''catering.restaurant.indian''),
     (''italian'', ''catering.restaurant.italian''),
     (''french'', ''catering.restaurant.french''),
     (''american'', ''catering.restaurant.american''),
     (''mexican'', ''catering.restaurant.mexican''),
     (''seafood'', ''catering.restaurant.seafood''),
     (''steakhouse'', ''catering.restaurant.steak_house''),
     (''vegetarian'', ''catering.restaurant.vegetarian''),
     (''vegan'', ''catering.restaurant.vegan''),
     (''fast_food'', ''catering.fast_food'')]"

definition CUISINE_HEALTH_SCORES :: "(string \<times> int) list" where
  "CUISINE_HEALTH_SCORES =
    [(''vegan'', 85),
     (''vegetarian'', 80),
     (''healthy'', 85),
     (''organic'', 80),
     (''japanese'', 75),
     (''mediterranean'', 75),
     (''vietnamese'', 70),
     (''thai'', 65),
     (''korean'', 65),
     (''indian'', 60),
     (''chinese'', 60),
     (''seafood'', 70),
     (''italian'', 55),
     (''french'', 55),
     (''mexican'', 50),
     (''american'', 45),
     (''steakhouse'', 45),
     (''fast_food'', 25),
     (''general'', 50)]"

definition CUISINE_KEYWORDS :: "(string \<times> string list) list" where
  "CUISINE_KEYWORDS =
    [(''chinese'', [''chinese'', ''cantonese'', ''sichuan'', ''dim sum'', ''noodle'', ''dumpling'', ''wok'']),
     (''japanese'', [''japanese'', ''sushi'', ''ramen'', ''izakaya'', ''tempura'', ''udon'', ''yakitori'']),
     (''korean'', [''korean'', ''bbq'', ''kimchi'', ''bibimbap'', ''korean_bbq'']),
     (''thai'', [''thai'', ''pad thai'', ''curry'', ''tom yum'']),
     (''vietnamese'', [''vietnamese'', ''pho'', ''banh mi'', ''spring roll'']),
     (''indian'', [''indian'', ''curry'', ''tandoori'', ''masala'', ''biryani'', ''naan'']),
     (''italian'', [''italian'', ''pizza'', ''pasta'', ''risotto'', ''trattoria'']),
     (''french'', [''french'', ''bistro'', ''brasserie'', ''patisserie'']),
     (''american'', [''american'', ''burger'', ''bbq'', ''grill'', ''diner'']),
     (''mexican'', [''mexican'', ''taco'', ''burrito'', ''tex-mex'', ''quesadilla'']),
     (''mediterranean'', [''mediterranean'', ''greek'', ''turkish'', ''lebanese'', ''falafel'', ''hummus'']),
     (''vegetarian'', [''vegetarian'', ''veggie'']),
     (''vegan'', [''vegan'', ''plant-based'', ''plant based'']),
     (''seafood'', [''seafood'', ''fish'', ''oyster'', ''lobster'', ''crab'']),
     (''steakhouse'', [''steakhouse'', ''steak'', ''chophouse'']),
     (''fast_food'', [''fast food'', ''quick service'', ''takeaway'', ''take-away'']),
     (''healthy'', [''healthy'', ''salad'', ''bowl'', ''organic'', ''fresh'', ''light''])]"

section \<open>The cuisine classifier\<close>

text \<open>
  \<open>detectCuisines\<close>: the loop over \<open>Object.entries(CUISINE_KEYWORDS)\<close> pushes a cuisine
  when one of its keywords occurs in the search text; \<open>detected\<close> is the array built so far.
\<close>

fun detect_loop :: "string \<Rightarrow> (string \<times> string list) list \<Rightarrow> string list \<Rightarrow> string list" where
  "detect_loop searchText [] detected = detected"
| "detect_loop searchText ((cuisine, keywords) # entries) detected =
     detect_loop searchText entries
       (if some (\<lambda>keyword. str_includes searchText keyword) keywords
        then detected @ [cuisine] else detected)"

definition detectCuisines :: "string list \<Rightarrow> string \<Rightarrow> string list" where
  "detectCuisines categories name =
     (let searchText = toLowerCase (join '' '' (categories @ [name]));
          detected = detect_loop searchText CUISINE_KEYWORDS []
      in if length detected > 0 then detected else [''general''])"

text \<open>
  \<open>calculateHealthScore\<close>: the loop over the cuisines pushes the table score of a cuisine
  when the entry is truthy; then 80 is pushed when a healthy word occurs in the category
  text; the result is \<open>Math.max(...scores)\<close>, or 50 for an empty array.
\<close>

fun score_loop :: "string list \<Rightarrow> int list \<Rightarrow> int list" where
  "score_loop [] scores = scores"
| "score_loop (cuisine # cuisines) scores =
     score_loop cuisines
       (case map_of CUISINE_HEALTH_SCORES cuisine of
          None \<Rightarrow> scores
        | Some s \<Rightarrow> if truthy_int s then scores @ [s] else scores)"

definition healthy_words :: "string list" where
  "healthy_words = [''healthy'', ''organic'', ''vegan'', ''vegetarian'']"

definition calculateHealthScore :: "string list \<Rightarrow> string list \<Rightarrow> int" where
  "calculateHealthScore cuisines categories =
     (let scores = score_loop cuisines [];
          categoriesText = toLowerCase (join '' '' categories);
          scores' = (if some (\<lambda>word. str_includes categoriesText word) healthy_words
                     then scores @ [80] else scores)
      in case scores' of [] \<Rightarrow> 50 | s # ss \<Rightarrow> fold max ss s)"

section \<open>Processing one provider feature\<close>

text \<open>
  A feature of the provider's response, with the properties that the classifier, the
  sort and the distance field read: the category tags and the name are strings, the
  distance is a number, and each may be missing.  Of the \<open>Restaurant\<close> that
  \<open>processRestaurant\<close> builds, the model keeps the name, the distance in metres, the
  categories, the cuisine labels and the health tags; the identifier, the address, the
  contact data and the formatted distance play no part in what follows.
\<close>

record properties =
  p_categories :: "string list option"
  p_name :: "string option"
  p_distance :: "real option"

record feature =
  f_properties :: properties

record HealthTags =
  has_healthy_options :: bool
  has_vegetarian :: bool
  has_vegan :: bool
  cuisine_health_score :: int

record Restaurant =
  r_name :: string
  distance_meters :: real
  r_categories :: "string list"
  cuisine_types :: "string list"
  health_tags :: HealthTags

definition processRestaurant :: "feature \<Rightarrow> Restaurant" where
  "processRestaurant ft =
     (let props = f_properties ft;
          categories = or_list (p_categories props) [];
          name = or_str (p_name props) ''Unknown Restaurant'';
          cuisines = detectCuisines categories name;
          healthScore = calculateHealthScore cuisines categories
      in \<lparr> r_name = name,
           distance_meters = or_num (p_distance props) 0,
           r_categories = categories,
           cuisine_types = cuisines,
           health_tags =
             \<lparr> has_healthy_options =
                 some (\<lambda>c. str_includes c ''healthy'' \<or> str_includes c ''salad'') categories,
               has_vegetarian = some (\<lambda>c. str_includes c ''vegetarian'') categories,
               has_vegan = some (\<lambda>c. str_includes c ''vegan'') categories,
               cuisine_health_score = healthScore \<rparr> \<rparr>)"

section \<open>The places search\<close>

text \<open>
  \<open>features.sort(compareFn)\<close>: \<open>Array.prototype.sort\<close> is stable, and for a comparator
  that orders by a key the sorted array is determined.  \<open>array_sort\<close> computes it by
  inserting the elements from the right, each before the first element that the
  comparator does not put in front of it.
\<close>

fun sort_insert :: "('a \<Rightarrow> 'a \<Rightarrow> real) \<Rightarrow> 'a \<Rightarrow> 'a list \<Rightarrow> 'a list" where
  "sort_insert compareFn a [] = [a]"
| "sort_insert compareFn a (b # bs) =
     (if compareFn a b \<le> 0 then a # b # bs else b # sort_insert compareFn a bs)"

definition array_sort :: "('a \<Rightarrow> 'a \<Rightarrow> real) \<Rightarrow> 'a list \<Rightarrow> 'a list" where
  "array_sort compareFn xs = foldr (sort_insert compareFn) xs []"

definition compareDistance :: "feature \<Rightarrow> feature \<Rightarrow> real" where
  "compareDistance a b =
     or_num (p_distance (f_properties a)) 0 - or_num (p_distance (f_properties b)) 0"

text \<open>
  The request to the provider, as the query parameters set on the URL: the category
  token, the circle filter (longitude, latitude, radius), the proximity bias
  (longitude, latitude) and the limit.  The fifth parameter, the API key, is the same
  constant in every request and is left out.  The category is the value that
  \<open>searchParams.set\<close> turns into text: \<open>Own token\<close> is the token itself, and
  \<open>Inherited key\<close> is the text of the inherited member of that name (the source text of
  a native function, or \<open>[object Object]\<close>), which is no category token.
\<close>

record request =
  q_categories :: js_property
  q_filter_circle :: "real \<times> real \<times> real"
  q_bias_proximity :: "real \<times> real"
  q_limit :: real

text \<open>
  What \<open>fetch\<close> and \<open>response.json()\<close> give back: the promise is rejected (with the
  message of the error), or there is a response with its status, whose body either
  cannot be read as a feature collection (again with the message of the error thrown) or
  is an object whose \<open>features\<close> are an array or missing.
\<close>

datatype body = Malformed string | FeatureCollection "feature list option"

datatype fetch_outcome = Rejected string | Response nat body

definition response_ok :: "nat \<Rightarrow> bool" where
  "response_ok status = (200 \<le> status \<and> status \<le> 299)"

datatype js_error = Error string

fun message :: "js_error \<Rightarrow> string" where
  "message (Error m) = m"

fun toString_nat :: "nat \<Rightarrow> string" where
  "toString_nat n =
     (if n < 10 then [char_of (48 + n)]
      else toString_nat (n div 10) @ [char_of (48 + n mod 10)])"

declare toString_nat.simps [simp del]

record SearchResult =
  success :: bool
  user_location :: "real \<times> real"
  search_radius_meters :: real
  total_results :: nat
  restaurants :: "Restaurant list"
  generated_at :: string
  error_message :: "string option"

text \<open>
  \<open>CUISINE_CATEGORIES[cuisineFilter] || CUISINE_CATEGORIES.all\<close>; the table has the
  entry \<open>all\<close>, so the second operand is never \<open>undefined\<close>.
\<close>

definition cuisine_category :: "string \<Rightarrow> js_property" where
  "cuisine_category cuisineFilter =
     or_property (get_property CUISINE_CATEGORIES cuisineFilter)
       (or_property (get_property CUISINE_CATEGORIES ''all'') (Own []))"

definition places_request :: "real \<Rightarrow> real \<Rightarrow> real \<Rightarrow> real \<Rightarrow> string \<Rightarrow> request" where
  "places_request latitude longitude radius limit cuisineFilter =
     (let category = cuisine_category cuisineFilter;
          apiLimit = min limit 50
      in \<lparr> q_categories = category,
           q_filter_circle = (longitude, latitude, radius),
           q_bias_proximity = (longitude, latitude),
           q_limit = apiLimit \<rparr>)"

text \<open>
  The body of the \<open>try\<close> block of \<open>searchRestaurants\<close>.  The first component is the
  error thrown or the result returned, the second the list of the requests sent with
  \<open>fetch\<close>.  \<open>now\<close> is the time stamp that \<open>new Date().toISOString()\<close> gives.  All five
  arguments are given; the source has the defaults 2000, 30 and \<open>"all"\<close> for a radius, a
  limit and a filter that the caller leaves out.  The calls of the logger only print.
\<close>

definition search_try ::
  "(request \<Rightarrow> fetch_outcome) \<Rightarrow> string \<Rightarrow> real \<Rightarrow> real \<Rightarrow> real \<Rightarrow> real \<Rightarrow> string
     \<Rightarrow> (js_error + SearchResult) \<times> request list" where
  "search_try fetch now latitude longitude radius limit cuisineFilter =
     (let url = places_request latitude longitude radius limit cuisineFilter
      in (case fetch url of
            Rejected m \<Rightarrow> Inl (Error m)
          | Response status b \<Rightarrow>
              if \<not> response_ok status
              then Inl (Error (''Geoapify API error: '' @ toString_nat status))
              else (case b of
                      Malformed m \<Rightarrow> Inl (Error m)
                    | FeatureCollection fs \<Rightarrow>
                        let features = or_list fs [];
                            sorted_features = array_sort compareDistance features;
                            rs = map processRestaurant sorted_features
                        in Inr \<lparr> success = True,
                                 user_location = (latitude, longitude),
                                 search_radius_meters = radius,
                                 total_results = length rs,
                                 restaurants = rs,
                                 generated_at = now,
                                 error_message = None \<rparr>),
          [url]))"

text \<open>
  \<open>searchRestaurants\<close>: the \<open>catch\<close> block turns every error of the \<open>try\<close> block into a
  result with \<open>success: false\<close>.
\<close>

definition searchRestaurants ::
  "(request \<Rightarrow> fetch_outcome) \<Rightarrow> string \<Rightarrow> real \<Rightarrow> real \<Rightarrow> real \<Rightarrow> real \<Rightarrow> string
     \<Rightarrow> SearchResult \<times> request list" where
  "searchRestaurants fetch now latitude longitude radius limit cuisineFilter =
     (case search_try fetch now latitude longitude radius limit cuisineFilter of
        (Inr result, calls) \<Rightarrow> (result, calls)
      | (Inl err, calls) \<Rightarrow>
          (\<lparr> success = False,
             user_location = (latitude, longitude),
             search_radius_meters = radius,
             total_results = 0,
             restaurants = [],
             generated_at = now,
             error_message = Some (or_str (Some (message err)) ''Failed to search restaurants'') \<rparr>,
           calls))"

section \<open>The enrichment lookup of the gateway\<close>

text \<open>
  \<open>s.trim()\<close> removes white space and line terminators at both ends; among the
  characters up to U+00FF these are TAB, LF, VT, FF, CR, the space and the no-break space.
\<close>

definition isWhiteSpace :: "char \<Rightarrow> bool" where
  "isWhiteSpace c = ((of_char c :: nat) \<in> {9, 10, 11, 12, 13, 32, 160})"

definition trim :: "string \<Rightarrow> string" where
  "trim s = rev (dropWhile isWhiteSpace (rev (dropWhile isWhiteSpace s)))"

text \<open>
  What the call of the scraping backend in \<open>fetchFromFastAPI\<close> gives: an exception
  (of \<open>fetch\<close> or of \<open>response.json()\<close>), a response that is not ok, with its status, or
  a JSON result with its \<open>success\<close> flag and its \<open>data\<close>, which may be missing.  The
  function returns the data or \<open>null\<close> (\<open>None\<close>); the second component lists the
  restaurant names requested from the backend.
\<close>

datatype 'd backend_outcome = Threw | NotOk nat | Json bool "'d option"

definition fetchFromFastAPI ::
  "(string \<Rightarrow> 'd backend_outcome) \<Rightarrow> string \<Rightarrow> 'd option \<times> string list" where
  "fetchFromFastAPI backend restaurantName =
     ((case backend restaurantName of
         Threw \<Rightarrow> None
       | NotOk status \<Rightarrow> None
       | Json ok d \<Rightarrow> if \<not> ok \<or> d = None then None else d),
      [restaurantName])"

record 'd http_response =
  h_status :: nat
  h_success :: bool
  h_error :: "string option"
  h_data :: "'d option"

text \<open>
  The handler of \<open>GET /search/:name\<close>.  \<open>decodeURIComponent\<close> is the platform's
  decoder, which returns the decoded name or throws a \<open>URIError\<close>; the handler is stated
  for any such function.  The result is the response sent and the list of the names
  requested from the scraping backend.
\<close>

definition search_name_handler ::
  "(string \<Rightarrow> js_error + string) \<Rightarrow> (string \<Rightarrow> 'd backend_outcome) \<Rightarrow> string
     \<Rightarrow> 'd http_response \<times> string list" where
  "search_name_handler decodeURIComponent backend name_param =
     (case decodeURIComponent name_param of
        Inl err \<Rightarrow>
          (\<lparr> h_status = 500, h_success = False,
             h_error = Some (or_str (Some (message err)) ''Internal server error''),
             h_data = None \<rparr>, [])
      | Inr restaurantName \<Rightarrow>
          if \<not> truthy_str restaurantName \<or> length (trim restaurantName) = 0
          then (\<lparr> h_status = 400, h_success = False,
                  h_error = Some ''Restaurant name is required'',
                  h_data = None \<rparr>, [])
          else (case fetchFromFastAPI backend restaurantName of
                  (None, calls) \<Rightarrow>
                    (\<lparr> h_status = 500, h_success = False,
                       h_error = Some ''Failed to fetch OpenRice data. Make sure FastAPI is running.'',
                       h_data = None \<rparr>, calls)
                | (Some d, calls) \<Rightarrow>
                    (\<lparr> h_status = 200, h_success = True, h_error = None,
                       h_data = Some d \<rparr>, calls)))"

text \<open>
  A decoder for escapes of characters below U+0080: \<open>%\<close> followed by two hexadecimal
  digits of a value below 128 is that character, any other use of \<open>%\<close> is reported as a
  \<open>URIError\<close>, and every other character is kept.  On names whose escapes are all of
  this kind it is \<open>decodeURIComponent\<close>.
\<close>

definition hex_value :: "char \<Rightarrow> nat option" where
  "hex_value c =
     (let n = (of_char c :: nat)
      in if 48 \<le> n \<and> n \<le> 57 then Some (n - 48)
         else if 65 \<le> n \<and> n \<le> 70 then Some (n - 55)
         else if 97 \<le> n \<and> n \<le> 102 then Some (n - 87)
         else None)"

fun decode_ascii :: "string \<Rightarrow> js_error + string" where
  "decode_ascii [] = Inr []"
| "decode_ascii (c # cs) =
     (if c = CHR ''%''
      then (case cs of
              h # l # rest \<Rightarrow>
                (case (hex_value h, hex_value l) of
                   (Some a, Some b) \<Rightarrow>
                     if 16 * a + b < 128
                     then (case decode_ascii rest of
                             Inl e \<Rightarrow> Inl e
                           | Inr s \<Rightarrow> Inr (char_of (16 * a + b) # s))
                     else Inl (Error ''URI malformed'')
                 | _ \<Rightarrow> Inl (Error ''URI malformed''))
            | _ \<Rightarrow> Inl (Error ''URI malformed''))
      else (case decode_ascii cs of Inl e \<Rightarrow> Inl e | Inr s \<Rightarrow> Inr (c # s)))"

section \<open>The search endpoint of the gateway\<close>

text \<open>
  The handler of \<open>POST /api/restaurants/search\<close> in the gateway runs the same search on
  the fields of the request body.  \<open>None\<close> for the latitude or the longitude is a field
  that is missing or not a number; \<open>None\<close> for the other fields is a missing field, which
  takes its default.  The result is the status and the JSON envelope sent, and the
  requests sent to the provider.
\<close>

record search_body =
  b_latitude :: "real option"
  b_longitude :: "real option"
  b_radius :: "real option"
  b_limit :: "real option"
  b_cuisine_filter :: "string option"

datatype envelope = ErrorEnvelope string | ResultEnvelope SearchResult

definition default_to :: "'a option \<Rightarrow> 'a \<Rightarrow> 'a" where
  "default_to a d = (case a of None \<Rightarrow> d | Some v \<Rightarrow> v)"

definition restaurants_search_endpoint ::
  "(request \<Rightarrow> fetch_outcome) \<Rightarrow> string \<Rightarrow> search_body \<Rightarrow> (nat \<times> envelope) \<times> request list" where
  "restaurants_search_endpoint fetch now req_body =
     (let radius = default_to (b_radius req_body) 2000;
          limit = default_to (b_limit req_body) 30;
          cuisine_filter = default_to (b_cuisine_filter req_body) ''all''
      in case (b_latitude req_body, b_longitude req_body) of
           (Some latitude, Some longitude) \<Rightarrow>
             if latitude < - 90 \<or> latitude > 90
             then ((400, ErrorEnvelope ''Invalid latitude: must be between -90 and 90''), [])
             else if longitude < - 180 \<or> longitude > 180
             then ((400, ErrorEnvelope ''Invalid longitude: must be between -180 and 180''), [])
             else
               let url = places_request latitude longitude radius limit (toLowerCase cuisine_filter);
                   failed = (\<lambda>m. (500, ErrorEnvelope (or_str (Some m) ''Failed to search restaurants'')))
               in (case fetch url of
                     Rejected m \<Rightarrow> failed m
                   | Response status b \<Rightarrow>
                       if \<not> response_ok status
                       then failed (''Geoapify API error: '' @ toString_nat status)
                       else (case b of
                               Malformed m \<Rightarrow> failed m
                             | FeatureCollection fs \<Rightarrow>
                                 let features = or_list fs [];
                                     sorted_features = array_sort compareDistance features;
                                     rs = map processRestaurant sorted_features
                                 in (200, ResultEnvelope
                                       \<lparr> success = True,
                                         user_location = (latitude, longitude),
                                         search_radius_meters = radius,
                                         total_results = length rs,
                                         restaurants = rs,
                                         generated_at = now,
                                         error_message = None \<rparr>)),
                   [url])
         | _ \<Rightarrow> ((400, ErrorEnvelope ''latitude and longitude are required as numbers''), []))"

section \<open>Notions of the specification\<close>

text \<open>
  The search text of the classifier and the category text of the health score, and what
  it means for a keyword to occur in them, stated with the \<open>sublist\<close> relation of the
  library.
\<close>

definition search_text :: "string list \<Rightarrow> string \<Rightarrow> string" where
  "search_text cats nm = toLowerCase (join '' '' (cats @ [nm]))"

definition keyword_match :: "string list \<Rightarrow> string \<Rightarrow> bool" where
  "keyword_match cats nm =
     (\<exists>entry\<in>set CUISINE_KEYWORDS. \<exists>k\<in>set (snd entry). sublist k (search_text cats nm))"

definition healthy_signal :: "string list \<Rightarrow> bool" where
  "healthy_signal cats =
     (\<exists>w\<in>set [''healthy'', ''organic'', ''vegan'', ''vegetarian''].
        sublist w (toLowerCase (join '' '' cats)))"

text \<open>
  The candidate pool of the health score as the specification describes it: the table
  scores of the matched cuisines, and 80 when there is a healthy signal.
\<close>

definition candidate_pool :: "string list \<Rightarrow> string list \<Rightarrow> int set" where
  "candidate_pool cuisines cats =
     (\<Union>c\<in>set cuisines. set_option (map_of CUISINE_HEALTH_SCORES c)) \<union>
     (if healthy_signal cats then {80} else {})"

text \<open>The distance by which the features are ordered: the reported one, or 0.\<close>

definition feature_distance :: "feature \<Rightarrow> real" where
  "feature_distance ft = (case p_distance (f_properties ft) of None \<Rightarrow> 0 | Some d \<Rightarrow> d)"

text \<open>
  A provider outcome honours the limit of a request when the feature list, if there is
  one, is no longer than the limit.
\<close>

definition honours_limit :: "request \<Rightarrow> fetch_outcome \<Rightarrow> bool" where
  "honours_limit rq outcome =
     (case outcome of
        Response status (FeatureCollection (Some fs)) \<Rightarrow> real (length fs) \<le> q_limit rq
      | _ \<Rightarrow> True)"

definition whitespace_only :: "string \<Rightarrow> bool" where
  "whitespace_only s = (\<forall>c\<in>set s. isWhiteSpace c)"

section \<open>Providers and features for running the search\<close>

definition mk_feature :: "string list \<Rightarrow> string \<Rightarrow> real \<Rightarrow> feature" where
  "mk_feature cats nm d =
     \<lparr> f_properties = \<lparr> p_categories = Some cats, p_name = Some nm, p_distance = Some d \<rparr> \<rparr>"

definition provider_of :: "feature list \<Rightarrow> request \<Rightarrow> fetch_outcome" where
  "provider_of fs rq = Response 200 (FeatureCollection (Some fs))"

definition provider_capped :: "feature list \<Rightarrow> request \<Rightarrow> fetch_outcome" where
  "provider_capped fs rq =
     (if q_limit rq < 1 then Response 400 (Malformed [])
      else Response 200 (FeatureCollection (Some (take (nat \<lfloor>q_limit rq\<rfloor>) fs))))"

definition provider_status :: "nat \<Rightarrow> request \<Rightarrow> fetch_outcome" where
  "provider_status status rq = Response status (Malformed [])"

definition backend_silent :: "string \<Rightarrow> unit backend_outcome" where
  "backend_silent nm = Threw"

definition far_feature :: feature where
  "far_feature = mk_feature [''catering.restaurant'', ''catering.restaurant.chinese''] ''Far Wok'' 500"

definition near_feature :: feature where
  "near_feature = mk_feature [''catering.restaurant''] ''Near Sushi'' 150"

definition behind_feature :: feature where
  "behind_feature = mk_feature [''catering.restaurant''] ''Behind'' (- 5)"

definition timestamp :: string where
  "timestamp = ''2026-01-01T00:00:00.000Z''"

section \<open>Lemmas about the string operations and the tables\<close>

lemma some_iff: "some p xs \<longleftrightarrow> (\<exists>x\<in>set xs. p x)"
  by (induction xs) auto

lemma startsWith_prefix: "startsWith s k \<longleftrightarrow> prefix k s"
  by (induction s k rule: startsWith.induct) auto

lemma str_includes_sublist: "str_includes s k \<longleftrightarrow> sublist k s"
  by (induction s) (auto simp: startsWith_prefix sublist_Cons_right)

lemma score_table_range:
  "map_of CUISINE_HEALTH_SCORES c = Some s \<Longrightarrow> 25 \<le> s \<and> s \<le> 85"
  by (drule map_of_SomeD) (auto simp: CUISINE_HEALTH_SCORES_def)

lemma category_table_truthy:
  "map_of CUISINE_CATEGORIES f = Some t \<Longrightarrow> truthy_str t"
  by (drule map_of_SomeD) (auto simp: CUISINE_CATEGORIES_def truthy_str_def)

lemma trim_empty_iff: "trim s = [] \<longleftrightarrow> (\<forall>c\<in>set s. isWhiteSpace c)"
proof
  assume "trim s = []"
  then have a: "\<forall>c\<in>set (dropWhile isWhiteSpace s). isWhiteSpace c"
    by (simp add: trim_def)
  have "dropWhile isWhiteSpace s = []"
  proof (rule ccontr)
    assume ne: "dropWhile isWhiteSpace s \<noteq> []"
    then have "\<not> isWhiteSpace (hd (dropWhile isWhiteSpace s))"
      by (rule hd_dropWhile)
    moreover have "hd (dropWhile isWhiteSpace s) \<in> set (dropWhile isWhiteSpace s)"
      using ne by simp
    ultimately show False using a by blast
  qed
  then show "\<forall>c\<in>set s. isWhiteSpace c" by simp
next
  assume "\<forall>c\<in>set s. isWhiteSpace c"
  then have d: "dropWhile isWhiteSpace s = []" by simp
  show "trim s = []" unfolding trim_def d by simp
qed

section \<open>Lemmas about the classifier\<close>

lemma set_detect_loop:
  "set (detect_loop t es acc) =
     set acc \<union> {c. \<exists>ks. (c, ks) \<in> set es \<and> (\<exists>k\<in>set ks. sublist k t)}"
proof (induction es arbitrary: acc)
  case Nil
  then show ?case by simp
next
  case (Cons e es)
  obtain c ks where e: "e = (c, ks)" by (cases e)
  show ?case
  proof (cases "\<exists>k\<in>set ks. sublist k t")
    case True
    then show ?thesis using Cons.IH [of "acc @ [c]"] e
      by (auto simp: some_iff str_includes_sublist)
  next
    case False
    then show ?thesis using Cons.IH [of acc] e
      by (auto simp: some_iff str_includes_sublist)
  qed
qed

lemma detect_loop_no_match:
  assumes "\<not> keyword_match cats nm"
  shows "detect_loop (search_text cats nm) CUISINE_KEYWORDS [] = []"
proof -
  have "set (detect_loop (search_text cats nm) CUISINE_KEYWORDS []) = {}"
    using assms unfolding set_detect_loop keyword_match_def by fastforce
  then show ?thesis by simp
qed

lemma detect_loop_match:
  assumes "keyword_match cats nm"
  shows "detect_loop (search_text cats nm) CUISINE_KEYWORDS [] \<noteq> []"
proof -
  have "set (detect_loop (search_text cats nm) CUISINE_KEYWORDS []) \<noteq> {}"
    using assms unfolding set_detect_loop keyword_match_def by fastforce
  then show ?thesis by auto
qed

lemma detected_labels_are_score_keys:
  "set (detectCuisines cats nm) \<subseteq> fst ` set CUISINE_HEALTH_SCORES"
proof -
  have keys: "fst ` set CUISINE_KEYWORDS \<subseteq> fst ` set CUISINE_HEALTH_SCORES"
    by (simp add: CUISINE_KEYWORDS_def CUISINE_HEALTH_SCORES_def)
  have general: "''general'' \<in> fst ` set CUISINE_HEALTH_SCORES"
    by (simp add: CUISINE_HEALTH_SCORES_def)
  have loop: "set (detect_loop t CUISINE_KEYWORDS []) \<subseteq> fst ` set CUISINE_KEYWORDS" for t
    unfolding set_detect_loop by force
  define t where "t = toLowerCase (join '' '' (cats @ [nm]))"
  have d: "detectCuisines cats nm =
      (if detect_loop t CUISINE_KEYWORDS [] = [] then [''general'']
       else detect_loop t CUISINE_KEYWORDS [])"
    by (simp add: detectCuisines_def Let_def t_def)
  show ?thesis
  proof (cases "detect_loop t CUISINE_KEYWORDS [] = []")
    case True
    then show ?thesis using d general by simp
  next
    case False
    then have "set (detectCuisines cats nm) \<subseteq> fst ` set CUISINE_KEYWORDS"
      using d loop [of t] by simp
    then show ?thesis using keys by blast
  qed
qed

lemma set_score_loop:
  "set (score_loop cs acc) =
     set acc \<union> (\<Union>c\<in>set cs. set_option (map_of CUISINE_HEALTH_SCORES c))"
proof (induction cs arbitrary: acc)
  case Nil
  then show ?case by simp
next
  case (Cons c cs)
  show ?case
  proof (cases "map_of CUISINE_HEALTH_SCORES c")
    case None
    then show ?thesis using Cons.IH by simp
  next
    case (Some s)
    then have "s \<noteq> 0" using score_table_range by fastforce
    then show ?thesis using Some Cons.IH by (auto simp: truthy_int_def)
  qed
qed

lemma fold_max_Max: "fold max ss (s::int) = Max (set (s # ss))"
  using Max.set_eq_fold [of s ss] by simp

lemma healthy_signal_some:
  "some (\<lambda>word. str_includes (toLowerCase (join '' '' cats)) word) healthy_words
     \<longleftrightarrow> healthy_signal cats"
  by (simp add: some_iff str_includes_sublist healthy_signal_def healthy_words_def)

lemma calculateHealthScore_scores:
  "\<exists>scores. set scores = candidate_pool cs cats \<and>
     calculateHealthScore cs cats = (case scores of [] \<Rightarrow> 50 | s # ss \<Rightarrow> fold max ss s)"
proof -
  define scores where
    "scores = (if healthy_signal cats then score_loop cs [] @ [80] else score_loop cs [])"
  have "set scores = candidate_pool cs cats"
    by (auto simp: scores_def candidate_pool_def set_score_loop)
  moreover have
    "calculateHealthScore cs cats = (case scores of [] \<Rightarrow> 50 | s # ss \<Rightarrow> fold max ss s)"
    by (simp add: calculateHealthScore_def scores_def Let_def healthy_signal_some)
  ultimately show ?thesis by blast
qed

lemma candidate_pool_range: "s \<in> candidate_pool cs cats \<Longrightarrow> 25 \<le> s \<and> s \<le> 85"
  using score_table_range by (fastforce simp: candidate_pool_def split: if_splits)

lemma finite_candidate_pool: "finite (candidate_pool cs cats)"
  by (simp add: candidate_pool_def)

section \<open>Lemmas about the search\<close>

lemma cuisine_category_eq:
  "cuisine_category f =
     (case map_of CUISINE_CATEGORIES f of
        Some t \<Rightarrow> Own t
      | None \<Rightarrow> if f \<in> set Object_prototype_members then Inherited f
                else Own ''catering.restaurant'')"
proof -
  have a: "map_of CUISINE_CATEGORIES ''all'' = Some ''catering.restaurant''"
    by (simp add: CUISINE_CATEGORIES_def)
  have b: "or_property (get_property CUISINE_CATEGORIES ''all'') (Own []) =
      Own ''catering.restaurant''"
    by (simp add: get_property_def or_property_def a truthy_str_def)
  show ?thesis
  proof (cases "map_of CUISINE_CATEGORIES f")
    case None
    then show ?thesis
      unfolding cuisine_category_def b by (simp add: get_property_def or_property_def)
  next
    case (Some t)
    then show ?thesis
      unfolding cuisine_category_def b
      using category_table_truthy [of f t] by (simp add: get_property_def or_property_def)
  qed
qed

lemma snd_search_try:
  "snd (search_try fetch now lat lon radius limit flt) =
     [places_request lat lon radius limit flt]"
  by (simp add: search_try_def Let_def)

lemma snd_searchRestaurants:
  "snd (searchRestaurants fetch now lat lon radius limit flt) =
     [places_request lat lon radius limit flt]"
  using snd_search_try [of fetch now lat lon radius limit flt]
  by (cases "search_try fetch now lat lon radius limit flt")
     (auto simp: searchRestaurants_def split: sum.splits)

lemma or_num_feature_distance: "or_num (p_distance (f_properties ft)) 0 = feature_distance ft"
  by (simp add: or_num_def feature_distance_def truthy_num_def split: option.splits)

lemma sort_insert_insort: "sort_insert (\<lambda>a b. k a - k b) x ys = insort_key k x ys"
  by (induction ys) auto

lemma array_sort_sort_key: "array_sort (\<lambda>a b. k a - k b) xs = sort_key k xs"
proof -
  have "sort_insert (\<lambda>a b. k a - k b) = insort_key k"
    by (intro ext) (rule sort_insert_insort)
  then show ?thesis by (simp add: array_sort_def sort_key_def)
qed

lemma array_sort_compareDistance:
  "array_sort compareDistance xs = sort_key feature_distance xs"
proof -
  have "compareDistance = (\<lambda>a b. feature_distance a - feature_distance b)"
    by (auto simp: compareDistance_def or_num_feature_distance fun_eq_iff)
  then show ?thesis using array_sort_sort_key [of feature_distance xs] by simp
qed

lemma fst_searchRestaurants_ok:
  assumes "fetch (places_request lat lon radius limit flt) = Response st (FeatureCollection fs)"
    and "response_ok st"
  shows "fst (searchRestaurants fetch now lat lon radius limit flt) =
     \<lparr> success = True, user_location = (lat, lon), search_radius_meters = radius,
       total_results = length (or_list fs []),
       restaurants = map processRestaurant (sort_key feature_distance (or_list fs [])),
       generated_at = now, error_message = None \<rparr>"
  using assms
  by (simp add: searchRestaurants_def search_try_def Let_def array_sort_compareDistance)

lemma success_searchRestaurants:
  assumes "success (fst (searchRestaurants fetch now lat lon radius limit flt))"
  shows "\<exists>st fs. fetch (places_request lat lon radius limit flt) = Response st (FeatureCollection fs)
           \<and> response_ok st"
  using assms
  by (simp add: searchRestaurants_def search_try_def Let_def
           split: fetch_outcome.splits body.splits if_splits)

lemma distance_meters_processRestaurant:
  "distance_meters (processRestaurant ft) = feature_distance ft"
  by (simp add: processRestaurant_def or_num_feature_distance Let_def)

lemma gateway_rejects_bad_coordinates:
  assumes "b_latitude req_body = Some lat" and "b_longitude req_body = Some lon"
    and "lat < - 90 \<or> 90 < lat \<or> lon < - 180 \<or> 180 < lon"
  shows "fst (fst (restaurants_search_endpoint fetch now req_body)) = 400 \<and>
         snd (restaurants_search_endpoint fetch now req_body) = []"
  using assms by (auto simp: restaurants_search_endpoint_def Let_def)

section \<open>The claims\<close>

text \<open>
  C2.  For all category lists and names, the classifier returns a non-empty list of
  cuisine labels, which is the single label "general" when no keyword of the table
  occurs in the search text, and the health score computed from these labels and the
  categories is an integer between 0 and 100.
\<close>

theorem classifier_labels_and_score:
  "detectCuisines cats nm \<noteq> [] \<and>
   (\<not> keyword_match cats nm \<longrightarrow> detectCuisines cats nm = [''general'']) \<and>
   0 \<le> calculateHealthScore (detectCuisines cats nm) cats \<and>
   calculateHealthScore (detectCuisines cats nm) cats \<le> 100"
proof -
  have nonempty: "detectCuisines cats nm \<noteq> []"
    by (simp add: detectCuisines_def Let_def)
  have general: "detectCuisines cats nm = [''general'']" if "\<not> keyword_match cats nm"
    using detect_loop_no_match [OF that]
    by (simp add: detectCuisines_def search_text_def Let_def)
  have bounded: "0 \<le> calculateHealthScore cs cats \<and> calculateHealthScore cs cats \<le> 100" for cs
  proof -
    obtain scores where pool: "set scores = candidate_pool cs cats"
      and score: "calculateHealthScore cs cats = (case scores of [] \<Rightarrow> 50 | s # ss \<Rightarrow> fold max ss s)"
      using calculateHealthScore_scores by blast
    show ?thesis
    proof (cases scores)
      case Nil
      then show ?thesis using score by simp
    next
      case (Cons s ss)
      then have "calculateHealthScore cs cats = Max (set scores)"
        using score by (simp add: fold_max_Max)
      moreover have "Max (set scores) \<in> set scores"
        using Cons by (intro Max_in) simp_all
      ultimately show ?thesis
        using candidate_pool_range [of "Max (set scores)" cs cats] pool by simp
    qed
  qed
  show ?thesis using nonempty general bounded by blast
qed

theorem classifier_labels_and_score_witness:
  "\<not> keyword_match [''catering.restaurant''] ''Corner Cafe'' \<and>
   detectCuisines [''catering.restaurant''] ''Corner Cafe'' = [''general''] \<and>
   0 \<le> calculateHealthScore (detectCuisines [''catering.restaurant''] ''Corner Cafe'')
         [''catering.restaurant''] \<and>
   calculateHealthScore (detectCuisines [''catering.restaurant''] ''Corner Cafe'')
         [''catering.restaurant''] \<le> 100"
proof -
  have h: "\<not> keyword_match [''catering.restaurant''] ''Corner Cafe''"
    by code_simp
  show ?thesis
    using h classifier_labels_and_score [of "[''catering.restaurant'']" "''Corner Cafe''"]
    by blast
qed

text \<open>
  C3.  For every list of cuisines and every category list, the health score is the
  maximum of the candidate pool, which consists of the table scores of the cuisines and
  of the value 80 when one of the words "healthy", "organic", "vegan", "vegetarian"
  occurs in the lower-cased category tags joined by spaces; for an empty pool the score
  is 50.
\<close>

theorem health_score_is_pool_maximum:
  "calculateHealthScore cs cats =
     (if candidate_pool cs cats = {} then 50 else Max (candidate_pool cs cats))"
proof -
  obtain scores where pool: "set scores = candidate_pool cs cats"
    and score: "calculateHealthScore cs cats = (case scores of [] \<Rightarrow> 50 | s # ss \<Rightarrow> fold max ss s)"
    using calculateHealthScore_scores by blast
  show ?thesis
    unfolding pool [symmetric] using score by (cases scores) (simp_all add: fold_max_Max)
qed

theorem health_score_is_pool_maximum_witness:
  "candidate_pool [''chinese'', ''healthy''] [''catering.restaurant.Vegan''] = {60, 85, 80} \<and>
   calculateHealthScore [''chinese'', ''healthy''] [''catering.restaurant.Vegan''] = 85 \<and>
   candidate_pool [''general''] [''catering.restaurant''] = {50} \<and>
   calculateHealthScore [''general''] [''catering.restaurant''] = 50 \<and>
   candidate_pool [] [] = {} \<and>
   calculateHealthScore [] [] = 50"
proof -
  have p1: "candidate_pool [''chinese'', ''healthy''] [''catering.restaurant.Vegan''] = {60, 85, 80}"
    by code_simp
  have p2: "candidate_pool [''general''] [''catering.restaurant''] = {50}"
    by code_simp
  have p3: "candidate_pool [] [] = {}"
    by code_simp
  show ?thesis
    using health_score_is_pool_maximum [of "[''chinese'', ''healthy'']" "[''catering.restaurant.Vegan'']"]
      health_score_is_pool_maximum [of "[''general'']" "[''catering.restaurant'']"]
      health_score_is_pool_maximum [of "[]" "[]"]
    by (simp add: p1 p2 p3)
qed




text \<open>
  C10.  Every result of \<open>searchRestaurants\<close>, successful or not, has \<open>total_results\<close>
  equal to the length of its restaurant list, the requested latitude and longitude as
  \<open>user_location\<close> and the requested radius as \<open>search_radius_meters\<close>.
\<close>

theorem result_echoes_request:
  "total_results (fst (searchRestaurants fetch now lat lon radius limit flt)) =
     length (restaurants (fst (searchRestaurants fetch now lat lon radius limit flt))) \<and>
   user_location (fst (searchRestaurants fetch now lat lon radius limit flt)) = (lat, lon) \<and>
   search_radius_meters (fst (searchRestaurants fetch now lat lon radius limit flt)) = radius"
  by (simp add: searchRestaurants_def search_try_def Let_def
           split: fetch_outcome.splits body.splits)

text \<open>
  C7.  When the provider answers with a status that is not a success status, the search
  returns a result with \<open>success: false\<close> whose error message names the status, and it
  has sent exactly one request to the provider; being a value of the result type, it is
  returned and not thrown.
\<close>

theorem provider_error_status:
  assumes "fetch (places_request lat lon radius limit flt) = Response status b"
    and "\<not> response_ok status"
  shows "searchRestaurants fetch now lat lon radius limit flt =
    (\<lparr> success = False, user_location = (lat, lon), search_radius_meters = radius,
       total_results = 0, restaurants = [], generated_at = now,
       error_message = Some (''Geoapify API error: '' @ toString_nat status) \<rparr>,
     [places_request lat lon radius limit flt])"
  using assms
  by (simp add: searchRestaurants_def search_try_def Let_def or_str_def truthy_str_def)

theorem provider_error_status_witness:
  "provider_status 503 (places_request 22.3193 114.1694 2000 30 ''all'') =
     Response 503 (Malformed []) \<and>
   \<not> response_ok 503 \<and>
   searchRestaurants (provider_status 503) timestamp 22.3193 114.1694 2000 30 ''all'' =
    (\<lparr> success = False, user_location = (22.3193, 114.1694), search_radius_meters = 2000,
       total_results = 0, restaurants = [], generated_at = timestamp,
       error_message = Some ''Geoapify API error: 503'' \<rparr>,
     [places_request 22.3193 114.1694 2000 30 ''all''])"
proof -
  have h1: "provider_status 503 (places_request 22.3193 114.1694 2000 30 ''all'') =
     Response 503 (Malformed [])"
    by (simp add: provider_status_def)
  have h2: "\<not> response_ok 503"
    by (simp add: response_ok_def)
  have s: "toString_nat 503 = ''503''"
    by code_simp
  show ?thesis
    using h1 h2
      provider_error_status
        [of "provider_status 503" "22.3193" "114.1694" 2000 30 "''all''" 503 "Malformed []" timestamp]
    by (simp add: s)
qed

text \<open>
  C5, as the code has it.  For every requested limit, the limit of the request sent to
  the provider is the smaller of the requested limit and 50, hence at most 50: a larger
  one is clamped to 50.  A successful search returns one restaurant for each feature of
  the provider's answer and cuts nothing off; so it returns at most 50 restaurants
  whenever the provider returns no more features than the limit it is sent.
\<close>

theorem limit_is_clamped:
  "map q_limit (snd (searchRestaurants fetch now lat lon radius limit flt)) = [min limit 50] \<and>
   (\<forall>rq\<in>set (snd (searchRestaurants fetch now lat lon radius limit flt)). q_limit rq \<le> 50) \<and>
   (\<forall>status fs.
      fetch (places_request lat lon radius limit flt) = Response status (FeatureCollection fs) \<and>
      response_ok status \<longrightarrow>
      length (restaurants (fst (searchRestaurants fetch now lat lon radius limit flt))) =
        length (case fs of None \<Rightarrow> [] | Some xs \<Rightarrow> xs)) \<and>
   (honours_limit (places_request lat lon radius limit flt)
      (fetch (places_request lat lon radius limit flt)) \<longrightarrow>
    length (restaurants (fst (searchRestaurants fetch now lat lon radius limit flt))) \<le> 50)"
proof -
  let ?rq = "places_request lat lon radius limit flt"
  let ?rs = "restaurants (fst (searchRestaurants fetch now lat lon radius limit flt))"
  have lim: "q_limit ?rq = min limit 50"
    by (simp add: places_request_def Let_def)
  have as_provided: "length ?rs = length (case fs of None \<Rightarrow> [] | Some xs \<Rightarrow> xs)"
    if f: "fetch ?rq = Response st (FeatureCollection fs)" and ok: "response_ok st" for st fs
    using fst_searchRestaurants_ok [of fetch lat lon radius limit flt st fs now] f ok
    by (simp add: or_list_def)
  have count: "length ?rs \<le> 50" if h: "honours_limit ?rq (fetch ?rq)"
  proof (cases "success (fst (searchRestaurants fetch now lat lon radius limit flt))")
    case True
    then obtain st fs where f: "fetch ?rq = Response st (FeatureCollection fs)"
      and ok: "response_ok st"
      using success_searchRestaurants by blast
    have "real (length (case fs of None \<Rightarrow> [] | Some xs \<Rightarrow> xs)) \<le> 50"
    proof (cases fs)
      case None
      then show ?thesis by simp
    next
      case (Some xs)
      then have "real (length xs) \<le> q_limit ?rq"
        using h f by (simp add: honours_limit_def)
      then show ?thesis using Some lim by simp
    qed
    then show ?thesis
      using as_provided [OF f ok] by simp
  next
    case False
    then show ?thesis
      by (simp add: searchRestaurants_def search_try_def Let_def
               split: fetch_outcome.splits body.splits if_splits)
  qed
  show ?thesis
    using lim as_provided count by (simp add: snd_searchRestaurants)
qed

theorem limit_is_clamped_witness:
  "map q_limit
     (snd (searchRestaurants (provider_capped (replicate 60 near_feature)) timestamp
        22.3193 114.1694 2000 1000 ''all'')) = [50] \<and>
   honours_limit (places_request 22.3193 114.1694 2000 1000 ''all'')
     (provider_capped (replicate 60 near_feature)
        (places_request 22.3193 114.1694 2000 1000 ''all'')) \<and>
   provider_capped (replicate 60 near_feature)
     (places_request 22.3193 114.1694 2000 1000 ''all'') =
       Response 200 (FeatureCollection (Some (replicate 50 near_feature))) \<and>
   response_ok 200 \<and>
   length (restaurants
     (fst (searchRestaurants (provider_capped (replicate 60 near_feature)) timestamp
        22.3193 114.1694 2000 1000 ''all''))) = 50"
proof -
  have h: "honours_limit (places_request 22.3193 114.1694 2000 1000 ''all'')
     (provider_capped (replicate 60 near_feature)
        (places_request 22.3193 114.1694 2000 1000 ''all''))"
    by (simp add: honours_limit_def provider_capped_def places_request_def Let_def)
  have p: "provider_capped (replicate 60 near_feature)
     (places_request 22.3193 114.1694 2000 1000 ''all'') =
       Response 200 (FeatureCollection (Some (replicate 50 near_feature)))"
    by (simp add: provider_capped_def places_request_def Let_def)
  have ok: "response_ok 200"
    by (simp add: response_ok_def)
  show ?thesis
    using h p ok limit_is_clamped
      [of "provider_capped (replicate 60 near_feature)" timestamp "22.3193" "114.1694" 2000 1000 "''all''"]
    by simp
qed

theorem limit_is_clamped_counterexample:
  "map q_limit
     (snd (searchRestaurants (provider_of (replicate 60 near_feature)) timestamp
        22.3193 114.1694 2000 1000 ''all'')) = [50] \<and>
   length (restaurants
     (fst (searchRestaurants (provider_of (replicate 60 near_feature)) timestamp
        22.3193 114.1694 2000 1000 ''all''))) = 60"
proof -
  have p: "provider_of (replicate 60 near_feature)
     (places_request 22.3193 114.1694 2000 1000 ''all'') =
       Response 200 (FeatureCollection (Some (replicate 60 near_feature)))"
    by (simp add: provider_of_def)
  have ok: "response_ok 200"
    by (simp add: response_ok_def)
  have l: "q_limit (places_request 22.3193 114.1694 2000 1000 ''all'') = 50"
    by (simp add: places_request_def Let_def)
  show ?thesis
    using fst_searchRestaurants_ok
        [of "provider_of (replicate 60 near_feature)" "22.3193" "114.1694" 2000 1000 "''all''"
            200 "Some (replicate 60 near_feature)" timestamp] p ok l
    by (simp add: snd_searchRestaurants or_list_def)
qed

text \<open>
  C4.  In every successful search result the restaurants are in non-decreasing order of
  distance, and the restaurants of any one distance are those of the provider's features
  of that distance (a missing distance counting as 0), in the order of the provider's
  feature list.  The witness runs the search on a response with a feature at 500 m
  followed by one at 150 m.
\<close>

theorem restaurants_sorted_stable:
  assumes "success (fst (searchRestaurants fetch now lat lon radius limit flt))"
  shows "\<exists>status fs.
      fetch (places_request lat lon radius limit flt) = Response status (FeatureCollection fs) \<and>
      sorted (map distance_meters
        (restaurants (fst (searchRestaurants fetch now lat lon radius limit flt)))) \<and>
      (\<forall>d. filter (\<lambda>r. distance_meters r = d)
              (restaurants (fst (searchRestaurants fetch now lat lon radius limit flt))) =
            map processRestaurant
              (filter (\<lambda>ft. feature_distance ft = d) (case fs of None \<Rightarrow> [] | Some xs \<Rightarrow> xs)))"
proof -
  obtain st fs where f: "fetch (places_request lat lon radius limit flt) =
      Response st (FeatureCollection fs)" and ok: "response_ok st"
    using success_searchRestaurants [OF assms] by blast
  define xs where "xs = (case fs of None \<Rightarrow> [] | Some xs \<Rightarrow> xs)"
  have rs: "restaurants (fst (searchRestaurants fetch now lat lon radius limit flt)) =
      map processRestaurant (sort_key feature_distance xs)"
    using fst_searchRestaurants_ok [of fetch lat lon radius limit flt st fs now] f ok
    by (simp add: xs_def or_list_def)
  have key: "distance_meters \<circ> processRestaurant = feature_distance"
    by (simp add: fun_eq_iff distance_meters_processRestaurant)
  have sorted: "sorted (map distance_meters (map processRestaurant (sort_key feature_distance xs)))"
    by (simp add: key)
  have stable: "filter (\<lambda>r. distance_meters r = d)
        (map processRestaurant (sort_key feature_distance xs)) =
      map processRestaurant (filter (\<lambda>ft. feature_distance ft = d) xs)" for d
  proof -
    have "filter (\<lambda>r. distance_meters r = d) (map processRestaurant (sort_key feature_distance xs)) =
        map processRestaurant
          (filter (\<lambda>ft. feature_distance ft = d) (sort_key feature_distance xs))"
      by (simp add: filter_map comp_def distance_meters_processRestaurant)
    then show ?thesis by (simp add: sort_key_stable)
  qed
  show ?thesis
    using f sorted stable unfolding rs xs_def by blast
qed

theorem restaurants_sorted_stable_witness:
  "success (fst (searchRestaurants (provider_of [far_feature, near_feature]) timestamp
      22.3193 114.1694 2000 30 ''chinese'')) \<and>
   map distance_meters (restaurants
     (fst (searchRestaurants (provider_of [far_feature, near_feature]) timestamp
        22.3193 114.1694 2000 30 ''chinese''))) = [150, 500] \<and>
   map r_name (restaurants
     (fst (searchRestaurants (provider_of [far_feature, near_feature]) timestamp
        22.3193 114.1694 2000 30 ''chinese''))) = [''Near Sushi'', ''Far Wok''] \<and>
   sorted (map distance_meters (restaurants
     (fst (searchRestaurants (provider_of [far_feature, near_feature]) timestamp
        22.3193 114.1694 2000 30 ''chinese''))))"
proof -
  let ?r = "fst (searchRestaurants (provider_of [far_feature, near_feature]) timestamp
      22.3193 114.1694 2000 30 ''chinese'')"
  have r: "?r = \<lparr> success = True, user_location = (22.3193, 114.1694),
       search_radius_meters = 2000, total_results = 2,
       restaurants = [processRestaurant near_feature, processRestaurant far_feature],
       generated_at = timestamp, error_message = None \<rparr>"
    by (simp add: searchRestaurants_def search_try_def provider_of_def response_ok_def
          or_list_def array_sort_def compareDistance_def far_feature_def near_feature_def
          mk_feature_def or_num_def truthy_num_def Let_def)
  have h: "success ?r" unfolding r by simp
  have d: "map distance_meters (restaurants ?r) = [150, 500]"
    unfolding r
    by (simp add: distance_meters_processRestaurant feature_distance_def
          far_feature_def near_feature_def mk_feature_def)
  have n: "map r_name (restaurants ?r) = [''Near Sushi'', ''Far Wok'']"
    unfolding r
    by (simp add: processRestaurant_def Let_def or_str_def truthy_str_def
          far_feature_def near_feature_def mk_feature_def)
  show ?thesis
    using h d n restaurants_sorted_stable
      [of "provider_of [far_feature, near_feature]" timestamp "22.3193" "114.1694" 2000 30 "''chinese''"]
    by blast
qed

text \<open>
  C8, as the code has it.  The \<open>distance_meters\<close> of the record made from a feature is
  the distance that the provider reports, and 0 when the feature has none; so it is
  non-negative exactly when the reported distance is missing or non-negative.  A
  negative reported distance is passed on as it is.
\<close>

theorem distance_meters_is_reported_distance:
  "distance_meters (processRestaurant ft) =
     (case p_distance (f_properties ft) of None \<Rightarrow> 0 | Some d \<Rightarrow> d) \<and>
   (0 \<le> distance_meters (processRestaurant ft) \<longleftrightarrow>
     (\<forall>d. p_distance (f_properties ft) = Some d \<longrightarrow> 0 \<le> d))"
  by (simp add: distance_meters_processRestaurant feature_distance_def split: option.splits)

theorem distance_meters_is_reported_distance_witness:
  "distance_meters (processRestaurant near_feature) = 150 \<and>
   0 \<le> distance_meters (processRestaurant near_feature) \<and>
   distance_meters (processRestaurant
     \<lparr> f_properties = \<lparr> p_categories = None, p_name = None, p_distance = None \<rparr> \<rparr>) = 0"
  using distance_meters_is_reported_distance [of near_feature]
    distance_meters_is_reported_distance
      [of "\<lparr> f_properties = \<lparr> p_categories = None, p_name = None, p_distance = None \<rparr> \<rparr>"]
  by (simp add: near_feature_def mk_feature_def)

theorem distance_meters_negative_counterexample:
  "map distance_meters (restaurants
     (fst (searchRestaurants (provider_of [behind_feature]) timestamp
        22.3193 114.1694 2000 30 ''all''))) = [- 5]"
  by (simp add: searchRestaurants_def search_try_def provider_of_def response_ok_def
        or_list_def array_sort_def behind_feature_def mk_feature_def Let_def
        distance_meters_processRestaurant feature_distance_def)

text \<open>
  C9.  When the name in the path of an enrichment lookup decodes to a string that is
  empty or made of white space only, the gateway answers with status 400 and the body
  \<open>{success: false, error: "Restaurant name is required"}\<close>, and it requests nothing
  from the scraping backend.
\<close>

theorem blank_name_is_rejected:
  assumes "decodeURIComponent name_param = Inr restaurantName"
    and "restaurantName = [] \<or> whitespace_only restaurantName"
  shows "search_name_handler decodeURIComponent backend name_param =
    (\<lparr> h_status = 400, h_success = False, h_error = Some ''Restaurant name is required'',
       h_data = None \<rparr>, [])"
proof -
  have "trim restaurantName = []"
    using assms(2) by (auto simp: trim_empty_iff whitespace_only_def)
  then show ?thesis
    using assms(1) by (simp add: search_name_handler_def)
qed

theorem blank_name_is_rejected_witness:
  "decode_ascii ''%20%09 '' = Inr [CHR '' '', CHR 0x09, CHR '' ''] \<and>
   whitespace_only [CHR '' '', CHR 0x09, CHR '' ''] \<and>
   search_name_handler decode_ascii backend_silent ''%20%09 '' =
    (\<lparr> h_status = 400, h_success = False, h_error = Some ''Restaurant name is required'',
       h_data = None \<rparr>, []) \<and>
   decode_ascii [] = Inr [] \<and>
   search_name_handler decode_ascii backend_silent [] =
    (\<lparr> h_status = 400, h_success = False, h_error = Some ''Restaurant name is required'',
       h_data = None \<rparr>, [])"
proof -
  have d: "decode_ascii ''%20%09 '' = Inr [CHR '' '', CHR 0x09, CHR '' '']"
    by code_simp
  have w: "whitespace_only [CHR '' '', CHR 0x09, CHR '' '']"
    by (simp add: whitespace_only_def isWhiteSpace_def)
  have e: "decode_ascii [] = Inr []"
    by simp
  show ?thesis
    using d w e
      blank_name_is_rejected [of decode_ascii "''%20%09 ''" "[CHR '' '', CHR 0x09, CHR '' '']" backend_silent]
      blank_name_is_rejected [of decode_ascii "[]" "[]" backend_silent]
    by simp
qed

text \<open>
  C1, on the code.  \<open>searchRestaurants\<close> does not look at the range of the coordinates:
  with the latitude 91 it sends its request to the provider and returns the provider's
  answer as a successful result.  The search endpoint of the gateway, which runs the
  same search, rejects such coordinates with status 400 before any request
  (\<open>gateway_rejects_bad_coordinates\<close>).
\<close>

theorem search_sends_request_for_latitude_91:
  "searchRestaurants (provider_of []) timestamp 91 0 2000 30 ''all'' =
    (\<lparr> success = True, user_location = (91, 0), search_radius_meters = 2000,
       total_results = 0, restaurants = [], generated_at = timestamp,
       error_message = None \<rparr>,
     [\<lparr> q_categories = Own ''catering.restaurant'', q_filter_circle = (0, 91, 2000),
        q_bias_proximity = (0, 91), q_limit = 30 \<rparr>])"
  by (simp add: searchRestaurants_def search_try_def provider_of_def response_ok_def
        or_list_def array_sort_def places_request_def cuisine_category_eq
        CUISINE_CATEGORIES_def Let_def)

end
